theory Spec2Isabelle
  imports Complex_Main
begin

section \<open>Values of a numeric series\<close>

text \<open>
  The series handled by \<^verbatim>\<open>strategy.py\<close> and \<^verbatim>\<open>analytics.py\<close> are pandas series of
  floats.  A value is a finite number, one of the two infinities, or NaN, which is also how
  pandas stores a missing value.  Finite values are modelled as reals: rounding is not
  modelled, the special values and the way they propagate are.
\<close>

datatype fval = Fin real | PInf | NInf | NaN

text \<open>Unary minus and \<^verbatim>\<open>abs\<close>.\<close>

fun fneg :: "fval \<Rightarrow> fval" where
  "fneg (Fin a) = Fin (- a)"
| "fneg PInf = NInf"
| "fneg NInf = PInf"
| "fneg NaN = NaN"

fun fabs :: "fval \<Rightarrow> fval" where
  "fabs (Fin a) = Fin \<bar>a\<bar>"
| "fabs PInf = PInf"
| "fabs NInf = PInf"
| "fabs NaN = NaN"

text \<open>The comparisons \<^verbatim>\<open><\<close>, \<^verbatim>\<open>>\<close> and \<^verbatim>\<open><=\<close>: every comparison with NaN is false.\<close>

fun flt :: "fval \<Rightarrow> fval \<Rightarrow> bool" where
  "flt NaN _ = False"
| "flt _ NaN = False"
| "flt (Fin a) (Fin b) = (a < b)"
| "flt (Fin _) PInf = True"
| "flt (Fin _) NInf = False"
| "flt PInf _ = False"
| "flt NInf NInf = False"
| "flt NInf _ = True"

definition fgt :: "fval \<Rightarrow> fval \<Rightarrow> bool" where
  "fgt a b = flt b a"

definition fle :: "fval \<Rightarrow> fval \<Rightarrow> bool" where
  "fle a b = (a \<noteq> NaN \<and> b \<noteq> NaN \<and> \<not> flt b a)"

section \<open>The position state machine (\<^verbatim>\<open>strategy.py\<close>)\<close>

text \<open>
  The hedge ratio handed to \<^verbatim>\<open>strategy\<close> is a float or a series.
\<close>

datatype hedge = Scalar fval | Series "fval list"

text \<open>
  One pass of the body of \<^verbatim>\<open>for t in range(1, T)\<close>, on the position series \<open>ps\<close>:
  the previous position is copied to index \<open>t\<close>, then the entry rules are tried when the
  copied position is 0 and the exit rules otherwise.
\<close>

definition strategy_step :: "fval list \<Rightarrow> fval \<Rightarrow> fval \<Rightarrow> fval \<Rightarrow> int list \<Rightarrow> nat \<Rightarrow> int list" where
  "strategy_step z_scores entry_threshold exit_threshold stop_loss positions t =
     (let positions1 = positions[t := positions ! (t - 1)];
          z = z_scores ! t
      in if positions1 ! t = 0 then
           (if fgt z entry_threshold then positions1[t := - 1]
            else if flt z (fneg entry_threshold) then positions1[t := 1]
            else positions1)
         else
           (if flt (fabs z) exit_threshold then positions1[t := 0]
            else if fgt (fabs z) stop_loss then positions1[t := 0]
            else positions1))"

text \<open>
  \<^verbatim>\<open>strategy(z_scores, betas, spreads, entry_threshold, exit_threshold, stop_loss)\<close>:
  the positions start as a series of zeros over the index of \<open>z_scores\<close> and the loop runs
  over \<open>t = 1, ..., T - 1\<close>.
\<close>

definition strategy :: "fval list \<Rightarrow> hedge \<Rightarrow> fval list \<Rightarrow> fval \<Rightarrow> fval \<Rightarrow> fval \<Rightarrow> int list" where
  "strategy z_scores betas spreads entry_threshold exit_threshold stop_loss =
     (let T = length z_scores;
          positions = replicate T 0
      in foldl (strategy_step z_scores entry_threshold exit_threshold stop_loss) positions [1..<T])"


text \<open>
  The position series after the loop has run for \<open>t = 1, ..., k - 1\<close>; the whole loop is
  \<open>loop_upto\<close> at \<open>k = T\<close>.
\<close>

definition loop_upto :: "fval list \<Rightarrow> fval \<Rightarrow> fval \<Rightarrow> fval \<Rightarrow> nat \<Rightarrow> int list" where
  "loop_upto z_scores entry_threshold exit_threshold stop_loss k =
     foldl (strategy_step z_scores entry_threshold exit_threshold stop_loss)
       (replicate (length z_scores) 0) [1..<k]"

text \<open>
  The transition rules as the specification words them, from the previous position and the
  current z-score; the loop is compared with them below.
\<close>

definition spec_transition :: "fval \<Rightarrow> fval \<Rightarrow> fval \<Rightarrow> int \<Rightarrow> fval \<Rightarrow> int" where
  "spec_transition entry exit stop prev z =
     (if prev = 0 then
        (if fgt z entry then - 1 else if flt z (fneg entry) then 1 else 0)
      else
        (if flt (fabs z) exit then 0 else if fgt (fabs z) stop then 0 else prev))"

section \<open>Arithmetic on series (\<^verbatim>\<open>analytics.py\<close>)\<close>

text \<open>
  Float arithmetic on the special values: an undefined form is NaN, a finite nonzero number
  divided by zero is an infinity, and nothing raises.  There is no negative zero in the
  model, so a division by zero takes its sign from the numerator.
\<close>

fun fadd :: "fval \<Rightarrow> fval \<Rightarrow> fval" where
  "fadd NaN _ = NaN"
| "fadd _ NaN = NaN"
| "fadd (Fin a) (Fin b) = Fin (a + b)"
| "fadd (Fin _) b = b"
| "fadd a (Fin _) = a"
| "fadd PInf PInf = PInf"
| "fadd NInf NInf = NInf"
| "fadd PInf NInf = NaN"
| "fadd NInf PInf = NaN"

definition fsub :: "fval \<Rightarrow> fval \<Rightarrow> fval" where
  "fsub a b = fadd a (fneg b)"

fun fmul :: "fval \<Rightarrow> fval \<Rightarrow> fval" where
  "fmul NaN _ = NaN"
| "fmul _ NaN = NaN"
| "fmul (Fin a) (Fin b) = Fin (a * b)"
| "fmul (Fin a) PInf = (if a = 0 then NaN else if 0 < a then PInf else NInf)"
| "fmul (Fin a) NInf = (if a = 0 then NaN else if 0 < a then NInf else PInf)"
| "fmul PInf (Fin b) = (if b = 0 then NaN else if 0 < b then PInf else NInf)"
| "fmul NInf (Fin b) = (if b = 0 then NaN else if 0 < b then NInf else PInf)"
| "fmul PInf PInf = PInf"
| "fmul NInf NInf = PInf"
| "fmul PInf NInf = NInf"
| "fmul NInf PInf = NInf"

fun fdiv :: "fval \<Rightarrow> fval \<Rightarrow> fval" where
  "fdiv NaN _ = NaN"
| "fdiv _ NaN = NaN"
| "fdiv (Fin a) (Fin b) =
     (if b \<noteq> 0 then Fin (a / b)
      else if a = 0 then NaN else if 0 < a then PInf else NInf)"
| "fdiv (Fin _) PInf = Fin 0"
| "fdiv (Fin _) NInf = Fin 0"
| "fdiv PInf (Fin b) = (if 0 \<le> b then PInf else NInf)"
| "fdiv NInf (Fin b) = (if 0 \<le> b then NInf else PInf)"
| "fdiv PInf _ = NaN"
| "fdiv NInf _ = NaN"

text \<open>
  A series is the list of its values, indexed by position \<open>0, ..., n - 1\<close>.  A binary
  operation on two series aligns them on the union of their indices: where one series has
  no value the operand is NaN.
\<close>

definition value_at :: "fval list \<Rightarrow> nat \<Rightarrow> fval" where
  "value_at xs i = (if i < length xs then xs ! i else NaN)"

definition series_op :: "(fval \<Rightarrow> fval \<Rightarrow> fval) \<Rightarrow> fval list \<Rightarrow> fval list \<Rightarrow> fval list" where
  "series_op f xs ys = map (\<lambda>i. f (value_at xs i) (value_at ys i)) [0..<max (length xs) (length ys)]"

subsection \<open>Rolling statistics\<close>

text \<open>
  \<^verbatim>\<open>series.rolling(window)\<close> with an integer window: the window at \<open>t\<close> holds the last
  \<open>window\<close> values up to and including \<open>t\<close>, and \<^verbatim>\<open>min_periods\<close> defaults to the window
  size, so a statistic is NaN unless the window holds \<open>window\<close> observations; a NaN or an
  infinity is not an observation.  A negative window is rejected by pandas and is not a
  value of the model.
\<close>

fun fin_of :: "fval \<Rightarrow> real option" where
  "fin_of (Fin a) = Some a"
| "fin_of _ = None"

definition window_at :: "nat \<Rightarrow> fval list \<Rightarrow> nat \<Rightarrow> fval list" where
  "window_at w xs t = drop (Suc t - w) (take (Suc t) xs)"

definition observations :: "nat \<Rightarrow> fval list \<Rightarrow> nat \<Rightarrow> real list option" where
  "observations w xs t =
     (case those (map fin_of (window_at w xs t)) of
        None \<Rightarrow> None
      | Some vs \<Rightarrow> if length vs < w then None else Some vs)"

definition mean_of :: "real list \<Rightarrow> real" where
  "mean_of vs = sum_list vs / real (length vs)"

text \<open>The sample variance (\<^verbatim>\<open>ddof = 1\<close>).\<close>

definition sample_var :: "real list \<Rightarrow> real" where
  "sample_var vs = (\<Sum>v\<leftarrow>vs. (v - mean_of vs)\<^sup>2) / (real (length vs) - 1)"

definition rolling_mean :: "nat \<Rightarrow> fval list \<Rightarrow> fval list" where
  "rolling_mean w xs =
     map (\<lambda>t. case observations w xs t of
                 None \<Rightarrow> NaN
               | Some vs \<Rightarrow> if vs = [] then NaN else Fin (mean_of vs))
       [0..<length xs]"

definition rolling_std :: "nat \<Rightarrow> fval list \<Rightarrow> fval list" where
  "rolling_std w xs =
     map (\<lambda>t. case observations w xs t of
                 None \<Rightarrow> NaN
               | Some vs \<Rightarrow> if length vs \<le> 1 then NaN else Fin (sqrt (sample_var vs)))
       [0..<length xs]"

text \<open>
  \<^verbatim>\<open>x.rolling(window).cov(y)\<close> and \<^verbatim>\<open>y.rolling(window).var()\<close> are computed by pandas
  in float64, where rounding and underflow decide whether a value is exactly zero: a
  variance can be 0.0 beside a covariance that is not.  Finite values being reals here,
  the two statistics are not computed in the model; they are parameters, each returning
  its series.
\<close>

type_synonym rolling_cov_primitive = "nat \<Rightarrow> fval list \<Rightarrow> fval list \<Rightarrow> fval list"
type_synonym rolling_var_primitive = "nat \<Rightarrow> fval list \<Rightarrow> fval list"

subsection \<open>The functions of \<^verbatim>\<open>analytics.py\<close>\<close>

datatype error = KeyError string | LibraryError string

text \<open>
  The regression and the unit-root test are library calls (\<^verbatim>\<open>sm.OLS(...).fit()\<close>,
  \<^verbatim>\<open>adfuller\<close>): they are parameters, each returning its number or failing.
\<close>

type_synonym ols_primitive = "fval list \<Rightarrow> fval list \<Rightarrow> error + fval"
type_synonym adf_primitive = "fval list \<Rightarrow> error + fval"

definition compute_static_beta :: "ols_primitive \<Rightarrow> fval list \<Rightarrow> fval list \<Rightarrow> error + fval" where
  "compute_static_beta ols x y = ols x y"

definition compute_dynamic_beta ::
  "rolling_cov_primitive \<Rightarrow> rolling_var_primitive \<Rightarrow> fval list \<Rightarrow> fval list \<Rightarrow> nat \<Rightarrow> fval list" where
  "compute_dynamic_beta rolling_cov rolling_var x y window =
     (let cov = rolling_cov window x y;
          var = rolling_var window y;
          beta = series_op fdiv cov var
      in beta)"

fun compute_spread :: "fval list \<Rightarrow> fval list \<Rightarrow> hedge \<Rightarrow> fval list" where
  "compute_spread x y (Scalar beta) = series_op fsub x (map (fmul beta) y)"
| "compute_spread x y (Series beta) = series_op fsub x (series_op fmul beta y)"

definition compute_zscore :: "fval list \<Rightarrow> nat \<Rightarrow> fval list" where
  "compute_zscore series window =
     (let mean = rolling_mean window series;
          std = rolling_std window series;
          z = series_op fdiv (series_op fsub series mean) std
      in z)"

definition dropna :: "fval list \<Rightarrow> fval list" where
  "dropna series = filter (\<lambda>v. v \<noteq> NaN) series"

definition adf_test :: "adf_primitive \<Rightarrow> fval list \<Rightarrow> error + fval" where
  "adf_test adfuller series = adfuller (dropna series)"

text \<open>
  The table \<^verbatim>\<open>df\<close> is a pandas DataFrame: all its columns stand on one index.  It is the
  list of its rows, each row giving a value to every column name of the frame;
  \<^verbatim>\<open>df[x]\<close> is the column of a name the frame has and raises \<^verbatim>\<open>KeyError\<close> otherwise.
\<close>

record frame =
  labels :: "string list"
  rows :: "(string \<Rightarrow> fval) list"

definition column :: "frame \<Rightarrow> string \<Rightarrow> error + fval list" where
  "column df x =
     (if x \<in> set (labels df) then Inr (map (\<lambda>row. row x) (rows df)) else Inl (KeyError x))"

record result_bundle =
  beta :: hedge
  spread :: "fval list"
  zscore :: "fval list"
  adf_p :: fval

definition analyze_pair_static ::
  "ols_primitive \<Rightarrow> adf_primitive \<Rightarrow> frame \<Rightarrow> string \<Rightarrow> string \<Rightarrow> nat \<Rightarrow> error + result_bundle" where
  "analyze_pair_static ols adfuller df x y window =
     (case column df x of
        Inl e \<Rightarrow> Inl e
      | Inr X \<Rightarrow>
         (case column df y of
            Inl e \<Rightarrow> Inl e
          | Inr Y \<Rightarrow>
             (case compute_static_beta ols X Y of
                Inl e \<Rightarrow> Inl e
              | Inr b \<Rightarrow>
                 (let sp = compute_spread X Y (Scalar b);
                      zs = compute_zscore sp window
                  in (case adf_test adfuller sp of
                        Inl e \<Rightarrow> Inl e
                      | Inr p_value \<Rightarrow>
                          Inr \<lparr>beta = Scalar b, spread = sp, zscore = zs, adf_p = p_value\<rparr>)))))"

definition analyze_pair_dynamic ::
  "rolling_cov_primitive \<Rightarrow> rolling_var_primitive \<Rightarrow> adf_primitive \<Rightarrow> frame \<Rightarrow> string \<Rightarrow> string \<Rightarrow>
   nat \<Rightarrow> error + result_bundle" where
  "analyze_pair_dynamic rolling_cov rolling_var adfuller df x y window =
     (case column df x of
        Inl e \<Rightarrow> Inl e
      | Inr X \<Rightarrow>
         (case column df y of
            Inl e \<Rightarrow> Inl e
          | Inr Y \<Rightarrow>
             (let beta_series = compute_dynamic_beta rolling_cov rolling_var X Y window;
                  sp = compute_spread X Y (Series beta_series);
                  zs = compute_zscore sp window
              in (case adf_test adfuller sp of
                    Inl e \<Rightarrow> Inl e
                  | Inr p_value \<Rightarrow>
                      Inr \<lparr>beta = Series beta_series, spread = sp, zscore = zs,
                           adf_p = p_value\<rparr>))))"

section \<open>The loop of \<^verbatim>\<open>strategy\<close>, step by step\<close>

lemma strategy_step_update:
  "t < length ps \<Longrightarrow>
   strategy_step zs e x s ps t = ps[t := spec_transition e x s (ps ! (t - 1)) (zs ! t)]"
  by (simp add: strategy_step_def spec_transition_def Let_def)

lemma loop_upto_0: "loop_upto zs e x s 0 = replicate (length zs) 0"
  by (simp add: loop_upto_def)

lemma loop_upto_1: "loop_upto zs e x s (Suc 0) = replicate (length zs) 0"
  by (simp add: loop_upto_def)

lemma loop_upto_Suc:
  "0 < k \<Longrightarrow> loop_upto zs e x s (Suc k) = strategy_step zs e x s (loop_upto zs e x s k) k"
  by (simp add: loop_upto_def)

lemma loop_upto_length: "length (loop_upto zs e x s k) = length zs"
proof (induction k)
  case 0
  show ?case by (simp add: loop_upto_0)
next
  case (Suc k)
  show ?case
  proof (cases "k = 0")
    case True
    then show ?thesis by (simp add: loop_upto_1)
  next
    case False
    then show ?thesis
      using Suc by (simp add: loop_upto_Suc strategy_step_def Let_def)
  qed
qed

lemma loop_upto_Suc_update:
  assumes "0 < k" "k < length zs"
  shows "loop_upto zs e x s (Suc k) =
         (loop_upto zs e x s k)[k := spec_transition e x s (loop_upto zs e x s k ! (k - 1)) (zs ! k)]"
proof -
  have "k < length (loop_upto zs e x s k)" using assms(2) by (simp add: loop_upto_length)
  then show ?thesis using assms(1) by (simp add: loop_upto_Suc strategy_step_update)
qed

text \<open>Index 0 and the indices the loop has not reached yet still hold the initial 0.\<close>

lemma loop_upto_untouched:
  "k \<le> length zs \<Longrightarrow> t < length zs \<Longrightarrow> t = 0 \<or> k \<le> t \<Longrightarrow> loop_upto zs e x s k ! t = 0"
proof (induction k)
  case 0
  then show ?case by (simp add: loop_upto_0)
next
  case (Suc k)
  show ?case
  proof (cases "k = 0")
    case True
    with Suc.prems show ?thesis by (simp add: loop_upto_1)
  next
    case False
    have kl: "k < length zs" using Suc.prems(1) by simp
    have ne: "t \<noteq> k" using Suc.prems(3) False by auto
    have "loop_upto zs e x s k ! t = 0" using Suc.IH Suc.prems by auto
    then show ?thesis using False kl ne by (simp add: loop_upto_Suc_update)
  qed
qed

text \<open>Later iterations do not write to an index the loop has passed.\<close>

lemma loop_upto_stable:
  "t < k \<Longrightarrow> k \<le> m \<Longrightarrow> m \<le> length zs \<Longrightarrow> loop_upto zs e x s m ! t = loop_upto zs e x s k ! t"
proof (induction m)
  case 0
  then show ?case by simp
next
  case (Suc m)
  show ?case
  proof (cases "k = Suc m")
    case True
    then show ?thesis by simp
  next
    case False
    then have km: "k \<le> m" using Suc.prems by simp
    have m0: "0 < m" using km Suc.prems(1) by simp
    have ml: "m < length zs" using Suc.prems by simp
    have tm: "t \<noteq> m" using km Suc.prems(1) by simp
    have "loop_upto zs e x s (Suc m) ! t = loop_upto zs e x s m ! t"
      using tm by (simp add: loop_upto_Suc_update[OF m0 ml])
    also have "\<dots> = loop_upto zs e x s k ! t" using Suc.IH Suc.prems(1) km ml by simp
    finally show ?thesis .
  qed
qed

lemma loop_upto_at:
  assumes "0 < k" "k < length zs"
  shows "loop_upto zs e x s (Suc k) ! k = spec_transition e x s (loop_upto zs e x s k ! (k - 1)) (zs ! k)"
proof -
  have "k < length (loop_upto zs e x s k)" using assms(2) by (simp add: loop_upto_length)
  then show ?thesis by (simp add: loop_upto_Suc_update[OF assms])
qed

lemma strategy_loop: "strategy zs b sp e x s = loop_upto zs e x s (length zs)"
  by (simp add: strategy_def loop_upto_def Let_def)

lemma strategy_length: "length (strategy zs b sp e x s) = length zs"
  by (simp add: strategy_loop loop_upto_length)

lemma strategy_first: "zs \<noteq> [] \<Longrightarrow> strategy zs b sp e x s ! 0 = 0"
  by (simp add: strategy_loop loop_upto_untouched)

text \<open>Refinement: every position after the first is the specified transition of its predecessor.\<close>

lemma strategy_nth:
  assumes "1 \<le> t" "t < length zs"
  shows "strategy zs b sp e x s ! t = spec_transition e x s (strategy zs b sp e x s ! (t - 1)) (zs ! t)"
proof -
  have t0: "0 < t" using assms(1) by simp
  have a: "loop_upto zs e x s (length zs) ! t = loop_upto zs e x s (Suc t) ! t"
    using assms by (intro loop_upto_stable) simp_all
  have b: "loop_upto zs e x s (length zs) ! (t - 1) = loop_upto zs e x s t ! (t - 1)"
    using assms by (intro loop_upto_stable) simp_all
  show ?thesis
    unfolding strategy_loop a b using loop_upto_at[OF t0 assms(2)] .
qed

lemma spec_transition_range:
  "prev \<in> {- 1, 0, 1} \<Longrightarrow> spec_transition e x s prev z \<in> {- 1, 0, 1}"
  by (auto simp: spec_transition_def)

lemma strategy_range: "t < length zs \<Longrightarrow> strategy zs b sp e x s ! t \<in> {- 1, 0, 1}"
proof (induction t)
  case 0
  then have "zs \<noteq> []" by auto
  then show ?case by (simp add: strategy_first)
next
  case (Suc t)
  then have "strategy zs b sp e x s ! t \<in> {- 1, 0, 1}" by simp
  then have "spec_transition e x s (strategy zs b sp e x s ! t) (zs ! Suc t) \<in> {- 1, 0, 1}"
    by (rule spec_transition_range)
  then show ?case using strategy_nth[of "Suc t" zs b sp e x s] Suc.prems by simp
qed

lemma fle_not_flt: "fle a b \<Longrightarrow> \<not> flt b a"
  by (simp add: fle_def)

lemma flt_NaN_right [simp]: "\<not> flt a NaN"
  by (cases a) simp_all

lemma spec_transition_NaN: "spec_transition e x s prev NaN = prev"
  by (simp add: spec_transition_def fgt_def)

lemma spec_transition_hold:
  "prev \<noteq> 0 \<Longrightarrow> \<not> flt (fabs z) x \<Longrightarrow> \<not> fgt (fabs z) s \<Longrightarrow> spec_transition e x s prev z = prev"
  by (simp add: spec_transition_def)

text \<open>Leaving FLAT needs a z-score beyond the entry threshold.\<close>

lemma strategy_entered:
  assumes "1 \<le> t0" and "t0 < length zs"
    and "strategy zs b sp e x s ! (t0 - 1) = 0"
    and "strategy zs b sp e x s ! t0 \<noteq> 0"
  shows "fgt (zs ! t0) e \<or> flt (zs ! t0) (fneg e)"
proof -
  have "strategy zs b sp e x s ! t0 = spec_transition e x s 0 (zs ! t0)"
    using strategy_nth[of t0 zs b sp e x s] assms(1-3) by simp
  with assms(4) show ?thesis
    by (simp add: spec_transition_def split: if_splits)
qed

text \<open>A trade is kept while neither exit rule fires.\<close>

lemma strategy_hold:
  assumes "t0 \<le> t1" and "t1 < length zs"
    and "strategy zs b sp e x s ! t0 \<noteq> 0"
    and "\<forall>t. t0 < t \<and> t \<le> t1 \<longrightarrow> \<not> flt (fabs (zs ! t)) x \<and> \<not> fgt (fabs (zs ! t)) s"
  shows "strategy zs b sp e x s ! t1 = strategy zs b sp e x s ! t0"
  using assms(1,2,4)
proof (induction t1)
  case 0
  then show ?case by simp
next
  case (Suc t)
  show ?case
  proof (cases "t0 = Suc t")
    case True
    then show ?thesis by simp
  next
    case False
    then have le: "t0 \<le> t" using Suc.prems(1) by simp
    have tl: "t < length zs" using Suc.prems(2) by simp
    have q: "\<forall>u. t0 < u \<and> u \<le> t \<longrightarrow> \<not> flt (fabs (zs ! u)) x \<and> \<not> fgt (fabs (zs ! u)) s"
      using Suc.prems(3) by simp
    have prev: "strategy zs b sp e x s ! t = strategy zs b sp e x s ! t0"
      using Suc.IH[OF le tl q] .
    have "t0 < Suc t \<and> Suc t \<le> Suc t" using le by simp
    with Suc.prems(3) have band: "\<not> flt (fabs (zs ! Suc t)) x" "\<not> fgt (fabs (zs ! Suc t)) s"
      by blast+
    have nz: "strategy zs b sp e x s ! t \<noteq> 0" using prev assms(3) by simp
    have "strategy zs b sp e x s ! Suc t =
          spec_transition e x s (strategy zs b sp e x s ! t) (zs ! Suc t)"
      using strategy_nth[of "Suc t" zs b sp e x s] Suc.prems(2) by simp
    also have "\<dots> = strategy zs b sp e x s ! t"
      using nz band by (rule spec_transition_hold)
    finally show ?thesis using prev by simp
  qed
qed

text \<open>A trade ends only on one of the two exit rules.\<close>

lemma strategy_exit_cause:
  assumes "1 \<le> t" and "t < length zs"
    and "strategy zs b sp e x s ! (t - 1) \<noteq> 0" and "strategy zs b sp e x s ! t = 0"
  shows "flt (fabs (zs ! t)) x \<or> fgt (fabs (zs ! t)) s"
proof -
  have "strategy zs b sp e x s ! t =
        spec_transition e x s (strategy zs b sp e x s ! (t - 1)) (zs ! t)"
    using strategy_nth[of t zs b sp e x s] assms by simp
  with assms(3,4) show ?thesis
    by (simp add: spec_transition_def split: if_splits)
qed

section \<open>Claims about the position state machine\<close>

text \<open>
  C1.  The position series has the index of the z-score series and starts FLAT; at every
  later index \<open>t\<close> with a defined z-score the position follows the transition rules: from
  FLAT it becomes \<open>-1\<close> when \<open>z > entry\<close>, else \<open>+1\<close> when \<open>z < -entry\<close>, else stays 0;
  from a trade it becomes 0 when \<open>|z| < exit\<close>, else 0 when \<open>|z| > stop\<close>, else it is
  kept.
\<close>

theorem strategy_follows_rules:
  "length (strategy zs b sp e x s) = length zs \<and>
   (zs \<noteq> [] \<longrightarrow> strategy zs b sp e x s ! 0 = 0) \<and>
   (\<forall>t. 1 \<le> t \<and> t < length zs \<and> zs ! t \<noteq> NaN \<longrightarrow>
      (strategy zs b sp e x s ! (t - 1) = 0 \<longrightarrow>
         strategy zs b sp e x s ! t =
           (if fgt (zs ! t) e then - 1 else if flt (zs ! t) (fneg e) then 1 else 0)) \<and>
      (strategy zs b sp e x s ! (t - 1) \<noteq> 0 \<longrightarrow>
         strategy zs b sp e x s ! t =
           (if flt (fabs (zs ! t)) x then 0
            else if fgt (fabs (zs ! t)) s then 0
            else strategy zs b sp e x s ! (t - 1))))"
proof (intro conjI allI impI)
  show "length (strategy zs b sp e x s) = length zs" by (rule strategy_length)
next
  assume "zs \<noteq> []"
  then show "strategy zs b sp e x s ! 0 = 0" by (rule strategy_first)
next
  fix t
  assume h: "1 \<le> t \<and> t < length zs \<and> zs ! t \<noteq> NaN"
    and flat: "strategy zs b sp e x s ! (t - 1) = 0"
  have "strategy zs b sp e x s ! t = spec_transition e x s 0 (zs ! t)"
    using strategy_nth[of t zs b sp e x s] h flat by simp
  then show "strategy zs b sp e x s ! t =
      (if fgt (zs ! t) e then - 1 else if flt (zs ! t) (fneg e) then 1 else 0)"
    by (simp add: spec_transition_def)
next
  fix t
  assume h: "1 \<le> t \<and> t < length zs \<and> zs ! t \<noteq> NaN"
    and trade: "strategy zs b sp e x s ! (t - 1) \<noteq> 0"
  have "strategy zs b sp e x s ! t =
        spec_transition e x s (strategy zs b sp e x s ! (t - 1)) (zs ! t)"
    using strategy_nth[of t zs b sp e x s] h by simp
  then show "strategy zs b sp e x s ! t =
      (if flt (fabs (zs ! t)) x then 0
       else if fgt (fabs (zs ! t)) s then 0
       else strategy zs b sp e x s ! (t - 1))"
    using trade by (simp add: spec_transition_def)
qed

theorem strategy_follows_rules_witness:
  "[NaN, Fin 3, Fin 1] \<noteq> [] \<and> (1::nat) \<le> 2 \<and> 2 < length [NaN, Fin 3, Fin 1] \<and>
   [NaN, Fin 3, Fin 1] ! 2 \<noteq> NaN \<and>
   strategy [NaN, Fin 3, Fin 1] (Scalar (Fin 1)) [] (Fin 2) (Fin (1 / 2)) (Fin 4) ! 0 = 0 \<and>
   strategy [NaN, Fin 3, Fin 1] (Scalar (Fin 1)) [] (Fin 2) (Fin (1 / 2)) (Fin 4) ! (2 - 1) \<noteq> 0 \<and>
   strategy [NaN, Fin 3, Fin 1] (Scalar (Fin 1)) [] (Fin 2) (Fin (1 / 2)) (Fin 4) ! 2 =
   strategy [NaN, Fin 3, Fin 1] (Scalar (Fin 1)) [] (Fin 2) (Fin (1 / 2)) (Fin 4) ! (2 - 1)"
proof -
  let ?zs = "[NaN, Fin 3, Fin 1]"
  let ?p = "strategy ?zs (Scalar (Fin 1)) [] (Fin 2) (Fin (1 / 2)) (Fin 4)"
  note th = strategy_follows_rules[of ?zs "Scalar (Fin 1)" "[]" "Fin 2" "Fin (1 / 2)" "Fin 4"]
  have p0: "?p ! 0 = 0" using th by simp
  have r1: "1 \<le> (1::nat) \<and> 1 < length ?zs \<and> ?zs ! 1 \<noteq> NaN" by simp
  have p1: "?p ! 1 = - 1"
    using th r1 p0 by (auto simp: fgt_def dest!: spec[where x = 1])
  have r2: "1 \<le> (2::nat) \<and> 2 < length ?zs \<and> ?zs ! 2 \<noteq> NaN" by simp
  have p2: "?p ! 2 = ?p ! 1"
    using th r2 p1 by (auto simp: fgt_def dest!: spec[where x = 2])
  show ?thesis using p0 p1 p2 by simp
qed

text \<open>
  C2.  With entry 2, exit 0.5 and stop-loss 4 on the z-scores \<open>[_, 0.1, 2.5, 1.0, 0.3, 5.0]\<close>
  the specification expects \<open>[0, 0, -1, -1, 0, 0]\<close>.  The code is FLAT again at index 4, and at
  index 5 the entry rule fires on \<open>5.0 > 2\<close>: the last position is \<open>-1\<close>.
\<close>

theorem strategy_scenario_counterexample:
  "strategy [NaN, Fin 0.1, Fin 2.5, Fin 1.0, Fin 0.3, Fin 5.0] (Scalar (Fin 1)) []
     (Fin 2) (Fin 0.5) (Fin 4) \<noteq> [0, 0, - 1, - 1, 0, 0]"
  by (simp add: strategy_def strategy_step_def fgt_def Let_def upt_rec)

text \<open>
  C2, as amended.  On these z-scores and thresholds \<^verbatim>\<open>strategy\<close> returns
  \<open>[0, 0, -1, -1, 0, -1]\<close>, whatever the \<^verbatim>\<open>betas\<close> and \<^verbatim>\<open>spreads\<close> arguments.
\<close>

theorem strategy_scenario:
  "strategy [NaN, Fin 0.1, Fin 2.5, Fin 1.0, Fin 0.3, Fin 5.0] b sp
     (Fin 2) (Fin 0.5) (Fin 4) = [0, 0, - 1, - 1, 0, - 1]"
  by (simp add: strategy_def strategy_step_def fgt_def Let_def upt_rec)

text \<open>
  C3.  The specification expects thresholds that violate \<open>exit < entry < stop\<close> to be rejected
  before any series is processed.  \<^verbatim>\<open>strategy\<close> has no check of its thresholds: with
  entry 1, exit 2 and stop-loss 0.5 it processes the series and returns positions.
\<close>

theorem strategy_unordered_thresholds_counterexample:
  "\<not> (flt (Fin 2) (Fin 1) \<and> flt (Fin 1) (Fin 0.5)) \<and>
   strategy [NaN, Fin 3, Fin 1.5] (Scalar (Fin 1)) [] (Fin 1) (Fin 2) (Fin 0.5) = [0, - 1, 0]"
  by (simp add: strategy_def strategy_step_def fgt_def Let_def upt_rec)

text \<open>
  C3, as amended.  Whatever the thresholds, and so also when \<open>exit < entry < stop\<close> does
  not hold, \<^verbatim>\<open>strategy\<close> returns a position series over the index of the z-scores, each
  position being \<open>-1\<close>, 0 or \<open>+1\<close>.
\<close>

theorem strategy_accepts_unordered_thresholds:
  assumes "\<not> (flt x e \<and> flt e s)"
  shows "length (strategy zs b sp e x s) = length zs \<and>
         (\<forall>t < length zs. strategy zs b sp e x s ! t \<in> {- 1, 0, 1})"
  using strategy_length strategy_range by blast

theorem strategy_accepts_unordered_thresholds_witness:
  "\<not> (flt (Fin 2) (Fin 1) \<and> flt (Fin 1) (Fin (1 / 2))) \<and>
   length (strategy [NaN, Fin 3] (Scalar (Fin 1)) [] (Fin 1) (Fin 2) (Fin (1 / 2))) = 2 \<and>
   strategy [NaN, Fin 3] (Scalar (Fin 1)) [] (Fin 1) (Fin 2) (Fin (1 / 2)) ! 1 \<in> {- 1, 0, 1}"
proof -
  have h: "\<not> (flt (Fin 2) (Fin 1) \<and> flt (Fin 1) (Fin (1 / 2)))" by simp
  show ?thesis
    using h strategy_accepts_unordered_thresholds[OF h, of "[NaN, Fin 3]" "Scalar (Fin 1)" "[]"]
    by simp
qed

text \<open>
  C4.  Hysteresis.  When the position leaves FLAT at \<open>t0\<close>, the z-score there is beyond the
  entry threshold, and the position is kept at every later step up to \<open>t1\<close> as long as the
  z-scores in between are defined with \<open>exit \<le> |z| \<le> stop\<close>.  A trade returns to FLAT
  only at a step where \<open>|z| < exit\<close> or \<open>|z| > stop\<close>.
\<close>

theorem strategy_hysteresis:
  assumes "1 \<le> t0" and "t0 \<le> t1" and "t1 < length zs"
    and "strategy zs b sp e x s ! (t0 - 1) = 0"
    and "strategy zs b sp e x s ! t0 \<noteq> 0"
    and "\<forall>t. t0 < t \<and> t \<le> t1 \<longrightarrow>
           zs ! t \<noteq> NaN \<and> fle x (fabs (zs ! t)) \<and> fle (fabs (zs ! t)) s"
  shows "(fgt (zs ! t0) e \<or> flt (zs ! t0) (fneg e)) \<and>
         strategy zs b sp e x s ! t1 = strategy zs b sp e x s ! t0 \<and>
         (\<forall>t. 1 \<le> t \<and> t < length zs \<and> strategy zs b sp e x s ! (t - 1) \<noteq> 0 \<and>
              strategy zs b sp e x s ! t = 0 \<longrightarrow>
              flt (fabs (zs ! t)) x \<or> fgt (fabs (zs ! t)) s)"
proof (intro conjI allI impI)
  show "fgt (zs ! t0) e \<or> flt (zs ! t0) (fneg e)"
    using assms(1-5) by (intro strategy_entered[of t0 zs b sp e x s]) simp_all
next
  have band: "\<forall>t. t0 < t \<and> t \<le> t1 \<longrightarrow> \<not> flt (fabs (zs ! t)) x \<and> \<not> fgt (fabs (zs ! t)) s"
  proof (intro allI impI)
    fix t
    assume "t0 < t \<and> t \<le> t1"
    with assms(6) have "fle x (fabs (zs ! t))" "fle (fabs (zs ! t)) s" by blast+
    then show "\<not> flt (fabs (zs ! t)) x \<and> \<not> fgt (fabs (zs ! t)) s"
      by (simp add: fgt_def fle_def)
  qed
  show "strategy zs b sp e x s ! t1 = strategy zs b sp e x s ! t0"
    using assms(2,3,5) band by (rule strategy_hold)
next
  fix t
  assume h: "1 \<le> t \<and> t < length zs \<and> strategy zs b sp e x s ! (t - 1) \<noteq> 0 \<and>
             strategy zs b sp e x s ! t = 0"
  show "flt (fabs (zs ! t)) x \<or> fgt (fabs (zs ! t)) s"
    using h by (intro strategy_exit_cause[of t zs b sp e x s]) simp_all
qed

theorem strategy_hysteresis_witness:
  "strategy [NaN, Fin 3, Fin 1, Fin (7 / 2)] (Scalar (Fin 1)) [] (Fin 2) (Fin (1 / 2)) (Fin 4) ! (1 - 1) = 0 \<and>
   strategy [NaN, Fin 3, Fin 1, Fin (7 / 2)] (Scalar (Fin 1)) [] (Fin 2) (Fin (1 / 2)) (Fin 4) ! 1 \<noteq> 0 \<and>
   fle (Fin (1 / 2)) (fabs ([NaN, Fin 3, Fin 1, Fin (7 / 2)] ! 2)) \<and>
   fle (fabs ([NaN, Fin 3, Fin 1, Fin (7 / 2)] ! 2)) (Fin 4) \<and>
   fle (Fin (1 / 2)) (fabs ([NaN, Fin 3, Fin 1, Fin (7 / 2)] ! 3)) \<and>
   fle (fabs ([NaN, Fin 3, Fin 1, Fin (7 / 2)] ! 3)) (Fin 4) \<and>
   fgt ([NaN, Fin 3, Fin 1, Fin (7 / 2)] ! 1) (Fin 2) \<and>
   strategy [NaN, Fin 3, Fin 1, Fin (7 / 2)] (Scalar (Fin 1)) [] (Fin 2) (Fin (1 / 2)) (Fin 4) ! 3 =
   strategy [NaN, Fin 3, Fin 1, Fin (7 / 2)] (Scalar (Fin 1)) [] (Fin 2) (Fin (1 / 2)) (Fin 4) ! 1"
proof -
  let ?zs = "[NaN, Fin 3, Fin 1, Fin (7 / 2)]"
  let ?p = "strategy ?zs (Scalar (Fin 1)) [] (Fin 2) (Fin (1 / 2)) (Fin 4)"
  have val: "?p = [0, - 1, - 1, - 1]"
    by (simp add: strategy_def strategy_step_def fgt_def Let_def upt_rec)
  have a: "?p ! (1 - 1) = 0" and b: "?p ! 1 \<noteq> 0" by (simp_all add: val)
  have b2: "fle (Fin (1 / 2)) (fabs (?zs ! 2))" "fle (fabs (?zs ! 2)) (Fin 4)"
    and b3: "fle (Fin (1 / 2)) (fabs (?zs ! 3))" "fle (fabs (?zs ! 3)) (Fin 4)"
    by (simp_all add: fle_def)
  have c: "\<forall>t. 1 < t \<and> t \<le> 3 \<longrightarrow>
      ?zs ! t \<noteq> NaN \<and> fle (Fin (1 / 2)) (fabs (?zs ! t)) \<and> fle (fabs (?zs ! t)) (Fin 4)"
  proof (intro allI impI)
    fix t :: nat
    assume "1 < t \<and> t \<le> 3"
    then have "t = 2 \<or> t = 3" by auto
    then show "?zs ! t \<noteq> NaN \<and> fle (Fin (1 / 2)) (fabs (?zs ! t)) \<and> fle (fabs (?zs ! t)) (Fin 4)"
      using b2 b3 by auto
  qed
  have o: "(1::nat) \<le> 1" and m: "(1::nat) \<le> 3" and l: "3 < length ?zs" by simp_all
  note th = strategy_hysteresis[OF o m l a b c]
  have d: "?p ! 3 = ?p ! 1" using th by (rule conjunct1[OF conjunct2])
  have "fgt (?zs ! 1) (Fin 2) \<or> flt (?zs ! 1) (fneg (Fin 2))" using th by (rule conjunct1)
  then have e: "fgt (?zs ! 1) (Fin 2)" by simp
  show ?thesis by (intro conjI a b b2 b3 d e)
qed

text \<open>
  C5.  At a step whose z-score is undefined (NaN) no rule fires: the position is the
  previous one, whatever it was.
\<close>

theorem strategy_carries_undefined:
  "1 \<le> t \<Longrightarrow> t < length zs \<Longrightarrow> zs ! t = NaN \<Longrightarrow>
   strategy zs b sp e x s ! t = strategy zs b sp e x s ! (t - 1)"
  using strategy_nth[of t zs b sp e x s] by (simp add: spec_transition_NaN)

theorem strategy_carries_undefined_witness:
  "(1::nat) \<le> 2 \<and> 2 < length [NaN, Fin 3, NaN] \<and> [NaN, Fin 3, NaN] ! 2 = NaN \<and>
   strategy [NaN, Fin 3, NaN] (Scalar (Fin 1)) [] (Fin 2) (Fin (1 / 2)) (Fin 4) ! 2 =
   strategy [NaN, Fin 3, NaN] (Scalar (Fin 1)) [] (Fin 2) (Fin (1 / 2)) (Fin 4) ! (2 - 1)"
  using strategy_carries_undefined[of 2 "[NaN, Fin 3, NaN]" "Scalar (Fin 1)" "[]" "Fin 2" "Fin (1 / 2)" "Fin 4"]
  by simp

text \<open>
  C9.  The positions do not depend on the \<^verbatim>\<open>betas\<close> and \<^verbatim>\<open>spreads\<close> arguments.
\<close>

theorem strategy_ignores_betas_and_spreads:
  "strategy zs b1 sp1 e x s = strategy zs b2 sp2 e x s"
  by (simp add: strategy_def)

text \<open>
  C10.  No step goes from LONG to SHORT or from SHORT to LONG: after \<open>+1\<close> comes \<open>+1\<close> or
  0, after \<open>-1\<close> comes \<open>-1\<close> or 0, and a trade that meets \<open>|z| > stop\<close> is FLAT at that
  step.
\<close>

theorem strategy_no_direct_flip:
  assumes "1 \<le> t" and "t < length zs"
  shows "(strategy zs b sp e x s ! (t - 1) = 1 \<longrightarrow>
            strategy zs b sp e x s ! t = 1 \<or> strategy zs b sp e x s ! t = 0) \<and>
         (strategy zs b sp e x s ! (t - 1) = - 1 \<longrightarrow>
            strategy zs b sp e x s ! t = - 1 \<or> strategy zs b sp e x s ! t = 0) \<and>
         (strategy zs b sp e x s ! (t - 1) \<noteq> 0 \<and> fgt (fabs (zs ! t)) s \<longrightarrow>
            strategy zs b sp e x s ! t = 0)"
  using strategy_nth[OF assms, of b sp e x s] by (simp add: spec_transition_def)

theorem strategy_no_direct_flip_witness:
  "(1::nat) \<le> 2 \<and> 2 < length [NaN, Fin 3, Fin (- 5)] \<and>
   strategy [NaN, Fin 3, Fin (- 5)] (Scalar (Fin 1)) [] (Fin 2) (Fin (1 / 2)) (Fin 4) ! (2 - 1) = - 1 \<and>
   fgt (fabs ([NaN, Fin 3, Fin (- 5)] ! 2)) (Fin 4) \<and>
   strategy [NaN, Fin 3, Fin (- 5)] (Scalar (Fin 1)) [] (Fin 2) (Fin (1 / 2)) (Fin 4) ! 2 = 0"
proof -
  let ?zs = "[NaN, Fin 3, Fin (- 5)]"
  let ?p = "strategy ?zs (Scalar (Fin 1)) [] (Fin 2) (Fin (1 / 2)) (Fin 4)"
  have a: "(1::nat) \<le> 2" and l: "2 < length ?zs" by simp_all
  have val: "?p = [0, - 1, 0]"
    by (simp add: strategy_def strategy_step_def fgt_def Let_def upt_rec)
  have p1: "?p ! (2 - 1) = - 1" by (simp add: val)
  have st: "fgt (fabs (?zs ! 2)) (Fin 4)" by (simp add: fgt_def)
  have "?p ! 2 = 0"
    using strategy_no_direct_flip[OF a l, of "Scalar (Fin 1)" "[]" "Fin 2" "Fin (1 / 2)" "Fin 4"] p1 st
    by simp
  then show ?thesis using a l p1 st by blast
qed


section \<open>Series operations and rolling windows\<close>

lemma fadd_NaN_right [simp]: "fadd a NaN = NaN"
  by (cases a) simp_all

lemma fsub_NaN_right [simp]: "fsub a NaN = NaN"
  by (simp add: fsub_def)

lemma fsub_Fin [simp]: "fsub (Fin a) (Fin b) = Fin (a - b)"
  by (simp add: fsub_def)

lemma series_op_length [simp]:
  "length (series_op f xs ys) = max (length xs) (length ys)"
  by (simp add: series_op_def)

lemma series_op_nth:
  "i < max (length xs) (length ys) \<Longrightarrow>
   series_op f xs ys ! i = f (value_at xs i) (value_at ys i)"
  by (simp add: series_op_def)

lemma value_at_nth [simp]: "i < length xs \<Longrightarrow> value_at xs i = xs ! i"
  by (simp add: value_at_def)

lemma rolling_mean_length [simp]: "length (rolling_mean w xs) = length xs"
  by (simp add: rolling_mean_def)

lemma rolling_std_length [simp]: "length (rolling_std w xs) = length xs"
  by (simp add: rolling_std_def)










lemma compute_zscore_length [simp]: "length (compute_zscore series w) = length series"
  by (simp add: compute_zscore_def Let_def)


text \<open>Two columns of one frame have the same length: they stand on the index of the frame.\<close>

lemma frame_columns_aligned:
  "column df x = Inr X \<Longrightarrow> column df y = Inr Y \<Longrightarrow> length X = length Y"
  by (auto simp: column_def split: if_splits)

text \<open>Dividing by a zero: the quotient is NaN or an infinity, and NaN for a zero or a NaN only.\<close>

lemma fdiv_by_zero:
  "fdiv a (Fin 0) \<in> {NaN, PInf, NInf} \<and> (fdiv a (Fin 0) = NaN \<longleftrightarrow> a = NaN \<or> a = Fin 0)"
  by (cases a) simp_all

lemma compute_dynamic_beta_nth:
  assumes "t < length (rolling_var w y)"
  shows "compute_dynamic_beta rolling_cov rolling_var x y w ! t =
         fdiv (value_at (rolling_cov w x y) t) (rolling_var w y ! t)"
  using assms by (simp add: compute_dynamic_beta_def Let_def series_op_nth)

section \<open>Claims about the analytics\<close>



text \<open>
  C6.  The specification expects \<^verbatim>\<open>compute_dynamic_beta\<close> to yield NaN wherever the rolling
  variance of \<open>y\<close> is zero.  For \<open>x = [1, 2]\<close>, \<open>y = [2^-540, 2^-539]\<close> and window 2 pandas
  returns at index 1 the rolling covariance \<open>2^-541\<close> and the rolling variance 0.0 (the
  exact variance \<open>2^-1081\<close> is below the smallest float64 and underflows): beta there is
  \<open>+inf\<close>, not NaN.
\<close>

theorem compute_dynamic_beta_zero_variance_counterexample:
  "[NaN, Fin 0] ! 1 = Fin 0 \<and>
   compute_dynamic_beta (\<lambda>w x y. [NaN, Fin (1 / 2 ^ 541)]) (\<lambda>w y. [NaN, Fin 0])
     [Fin 1, Fin 2] [Fin (1 / 2 ^ 540), Fin (1 / 2 ^ 539)] 2 ! 1 = PInf \<and>
   compute_dynamic_beta (\<lambda>w x y. [NaN, Fin (1 / 2 ^ 541)]) (\<lambda>w y. [NaN, Fin 0])
     [Fin 1, Fin 2] [Fin (1 / 2 ^ 540), Fin (1 / 2 ^ 539)] 2 ! 1 \<noteq> NaN"
  by (simp add: compute_dynamic_beta_def series_op_def Let_def)

text \<open>
  C6, as amended.  At an index \<open>t\<close> where the rolling variance of \<open>y\<close> is zero,
  \<^verbatim>\<open>compute_dynamic_beta\<close> has a value, raises nothing, and the value is not a finite
  number: it is NaN when the rolling covariance at \<open>t\<close> is zero or missing, and an infinity
  when the rolling covariance there is any other value.
\<close>

theorem compute_dynamic_beta_zero_variance:
  assumes "t < length (rolling_var w y)" and "rolling_var w y ! t = Fin 0"
  shows "t < length (compute_dynamic_beta rolling_cov rolling_var x y w) \<and>
         compute_dynamic_beta rolling_cov rolling_var x y w ! t \<in> {NaN, PInf, NInf} \<and>
         (compute_dynamic_beta rolling_cov rolling_var x y w ! t = NaN \<longleftrightarrow>
            value_at (rolling_cov w x y) t = NaN \<or> value_at (rolling_cov w x y) t = Fin 0)"
proof -
  have len: "t < length (compute_dynamic_beta rolling_cov rolling_var x y w)"
    using assms(1) by (simp add: compute_dynamic_beta_def Let_def)
  have val: "compute_dynamic_beta rolling_cov rolling_var x y w ! t =
             fdiv (value_at (rolling_cov w x y) t) (Fin 0)"
    using compute_dynamic_beta_nth[where t = t and rolling_var = rolling_var and w = w
        and y = y and rolling_cov = rolling_cov and x = x] assms
    by simp
  show ?thesis
    using len fdiv_by_zero[of "value_at (rolling_cov w x y) t"] by (simp only: val)
qed

theorem compute_dynamic_beta_zero_variance_witness:
  "(1::nat) < length [NaN, Fin 0] \<and> [NaN, Fin 0] ! 1 = Fin 0 \<and>
   value_at [NaN, Fin 0] 1 = Fin 0 \<and>
   compute_dynamic_beta (\<lambda>w x y. [NaN, Fin 0]) (\<lambda>w y. [NaN, Fin 0])
     [Fin 1, Fin 2] [Fin 5, Fin 5] 2 ! 1 = NaN"
proof -
  have t: "(1::nat) < length [NaN, Fin 0]" and v: "[NaN, Fin 0] ! 1 = Fin 0" by simp_all
  have c: "value_at [NaN, Fin 0] 1 = Fin 0" by (simp add: value_at_def)
  note th = compute_dynamic_beta_zero_variance[where t = 1 and rolling_var = "\<lambda>w y. [NaN, Fin 0]"
      and w = 2 and y = "[Fin 5, Fin 5]" and rolling_cov = "\<lambda>w x y. [NaN, Fin 0]"
      and x = "[Fin 1, Fin 2]"]
  have "compute_dynamic_beta (\<lambda>w x y. [NaN, Fin 0]) (\<lambda>w y. [NaN, Fin 0])
          [Fin 1, Fin 2] [Fin 5, Fin 5] 2 ! 1 = NaN"
    using th t v c by simp
  then show ?thesis using t v c by simp
qed

end
